theory Spec2Isabelle
  imports Main
begin

section \<open>JavaScript values seen by the proxy\<close>

text \<open>
  The server in \<^verbatim>\<open>src/server.js\<close> is one Express application with two routes,
  modelled from the point where a route handler is entered. A string is the list of the
  UTF-8 octets of its text, so an ASCII character is one \<open>char\<close> and any other code
  point is the two to four octets of its encoding. Text that is not well formed (a lone
  surrogate) has no UTF-8 form and is outside the model.

  A query parameter delivered by Express in \<^verbatim>\<open>req.query\<close> is absent
  (\<^verbatim>\<open>undefined\<close>), a string, or an array of strings when the key is repeated.
  Nested objects, which only the extended query parser builds, are outside the model.
\<close>

datatype qval = QUndefined | QStr string | QArr "string list"

text \<open>
  A body parsed by axios is a JSON value. A number is carried by the only two things
  the server can observe of it: whether it is falsy (zero or NaN) and its decimal text.
  An object is the list of its own properties. A JavaScript value that may be
  \<^verbatim>\<open>undefined\<close> is a \<open>json option\<close>.
\<close>

datatype json =
    JNull
  | JBool bool
  | JNum bool string
  | JStr string
  | JArr "json list"
  | JObj "(string \<times> json) list"

text \<open>
  An error object as the handlers read it: its message and, on an axios rejection that
  got an answer, the response. \<^verbatim>\<open>new Error(msg)\<close> and a TypeError have no
  \<^verbatim>\<open>response\<close> property.
\<close>

record response =
  status :: nat
  data :: json

record error =
  message :: string
  response :: "response option"

definition new_Error :: "string \<Rightarrow> error" where
  "new_Error msg = \<lparr>message = msg, response = None\<rparr>"

text \<open>\<^verbatim>\<open>Array.prototype.join\<close> on strings.\<close>

fun join :: "string \<Rightarrow> string list \<Rightarrow> string" where
  "join sep [] = []"
| "join sep [x] = x"
| "join sep (x # y # ys) = x @ sep @ join sep (y # ys)"

text \<open>Evaluation from left to right, stopping at the first exception.\<close>

fun collect :: "(error + 'a) list \<Rightarrow> error + 'a list" where
  "collect [] = Inr []"
| "collect (Inl err # rs) = Inl err"
| "collect (Inr x # rs) = (case collect rs of Inl err \<Rightarrow> Inl err | Inr xs \<Rightarrow> Inr (x # xs))"

text \<open>
  String conversion as a template literal performs it. An array joins the conversions
  of its elements with commas, \<^verbatim>\<open>null\<close> elements giving the empty string. An
  object parsed from JSON inherits \<^verbatim>\<open>Object.prototype.toString\<close> unless it has an own
  property \<^verbatim>\<open>toString\<close>; that property is never callable, the inherited
  \<^verbatim>\<open>valueOf\<close> returns the object itself, and the conversion throws a TypeError.
\<close>

fun to_string :: "json \<Rightarrow> error + string" where
  "to_string JNull = Inr ''null''"
| "to_string (JBool b) = Inr (if b then ''true'' else ''false'')"
| "to_string (JNum z txt) = Inr txt"
| "to_string (JStr s) = Inr s"
| "to_string (JArr xs) =
     (case collect (map (\<lambda>x. case x of JNull \<Rightarrow> Inr [] | _ \<Rightarrow> to_string x) xs) of
        Inl err \<Rightarrow> Inl err
      | Inr ss \<Rightarrow> Inr (join '','' ss))"
| "to_string (JObj kvs) =
     (case map_of kvs ''toString'' of
        None \<Rightarrow> Inr ''[object Object]''
      | Some v \<Rightarrow> Inl (new_Error ''Cannot convert object to primitive value''))"

definition string_of :: "json option \<Rightarrow> error + string" where
  "string_of v = (case v of None \<Rightarrow> Inr ''undefined'' | Some x \<Rightarrow> to_string x)"

text \<open>Truthiness, as \<^verbatim>\<open>||\<close> and \<^verbatim>\<open>&&\<close> test it.\<close>

fun truthy :: "json option \<Rightarrow> bool" where
  "truthy None = False"
| "truthy (Some JNull) = False"
| "truthy (Some (JBool b)) = b"
| "truthy (Some (JNum z txt)) = (\<not> z)"
| "truthy (Some (JStr s)) = (s \<noteq> [])"
| "truthy (Some (JArr xs)) = True"
| "truthy (Some (JObj kvs)) = True"

text \<open>
  Reading a property that no prototype defines (\<^verbatim>\<open>access_token\<close>, \<^verbatim>\<open>error\<close>,
  \<^verbatim>\<open>detail\<close>): the own property of an object, \<^verbatim>\<open>undefined\<close> on any other value
  but \<^verbatim>\<open>null\<close>. The optional chain \<^verbatim>\<open>v?.k\<close> gives \<^verbatim>\<open>undefined\<close> on
  \<^verbatim>\<open>null\<close> and \<^verbatim>\<open>undefined\<close>; the plain read \<^verbatim>\<open>v.k\<close> throws there.
\<close>

fun own_property :: "json \<Rightarrow> string \<Rightarrow> json option" where
  "own_property (JObj kvs) k = map_of kvs k"
| "own_property _ k = None"

fun optional_chain :: "json option \<Rightarrow> string \<Rightarrow> json option" where
  "optional_chain None k = None"
| "optional_chain (Some JNull) k = None"
| "optional_chain (Some v) k = own_property v k"

text \<open>
  The same notions on a query parameter. The conversion of a string or of an array of
  strings cannot throw.
\<close>

fun q_string :: "qval \<Rightarrow> string" where
  "q_string QUndefined = ''undefined''"
| "q_string (QStr s) = s"
| "q_string (QArr xs) = join '','' xs"

fun q_truthy :: "qval \<Rightarrow> bool" where
  "q_truthy QUndefined = False"
| "q_truthy (QStr s) = (s \<noteq> [])"
| "q_truthy (QArr xs) = True"

text \<open>
  \<^verbatim>\<open>Array.prototype.includes\<close> on an array of string literals: only a string can be
  equal to an element.
\<close>

fun includes_js :: "string list \<Rightarrow> qval \<Rightarrow> bool" where
  "includes_js xs (QStr s) = (s \<in> set xs)"
| "includes_js xs _ = False"

section \<open>encodeURIComponent\<close>

text \<open>
  Letters, digits and \<^verbatim>\<open>- _ . ! ~ * ' ( )\<close> are kept; every other code point is written
  as its UTF-8 octets, each as a percent sign and two upper-case hexadecimal digits. On
  the octets of the text this is one step per octet, since the octets of a code point
  beyond ASCII are all 128 or more.
\<close>

definition unescaped :: "char \<Rightarrow> bool" where
  "unescaped c \<longleftrightarrow>
     c \<in> set (''ABCDEFGHIJKLMNOPQRSTUVWXYZabcdefghijklmnopqrstuvwxyz0123456789-_.!~*()''
              @ [CHR 0x27])"

definition hex_digit :: "nat \<Rightarrow> char" where
  "hex_digit n = ''0123456789ABCDEF'' ! (n mod 16)"

definition percent :: "nat \<Rightarrow> string" where
  "percent b = [CHR ''%'', hex_digit (b div 16), hex_digit b]"

definition encode_unit :: "char \<Rightarrow> string" where
  "encode_unit c = (if unescaped c then [c] else percent (of_char c))"

definition encodeURIComponent :: "string \<Rightarrow> string" where
  "encodeURIComponent s = concat (map encode_unit s)"

section \<open>The upstream API behind axios\<close>

text \<open>
  An outbound call is what the server hands to axios: the URL, for a POST the form
  parameters, and the headers. The world answers a call with an HTTP response (status
  and parsed body) or with no response at all (a network failure, with its message).
  Console output is not part of the model.
\<close>

datatype net_call =
    Post string "(string \<times> string) list" "(string \<times> string) list"
  | Get string "(string \<times> string) list"

datatype http_outcome = Http_response nat json | No_response string

record env =
  CLIENT_ID :: "string option"
  CLIENT_SECRET :: "string option"
  upstream :: "net_call \<Rightarrow> http_outcome"

function show_nat :: "nat \<Rightarrow> string" where
  "show_nat n =
     (if n < 10 then [''0123456789'' ! n]
      else show_nat (n div 10) @ [''0123456789'' ! (n mod 10)])"
  by pat_completeness auto
termination
  by (relation "measure id") auto

declare show_nat.simps [simp del]

text \<open>
  axios with its default \<^verbatim>\<open>validateStatus\<close>: the promise resolves with the response
  when the status is 2xx, and rejects otherwise with an error that carries the response;
  a network failure rejects with an error that carries none.
\<close>

definition axios :: "env \<Rightarrow> net_call \<Rightarrow> error + response" where
  "axios e call =
     (case upstream e call of
        Http_response s d \<Rightarrow>
          if 200 \<le> s \<and> s < 300 then Inr \<lparr>status = s, data = d\<rparr>
          else Inl \<lparr>message = ''Request failed with status code '' @ show_nat s,
                    response = Some \<lparr>status = s, data = d\<rparr>\<rparr>
      | No_response m \<Rightarrow> Inl \<lparr>message = m, response = None\<rparr>)"

section \<open>getAccessToken\<close>

definition token_url :: string where
  "token_url = ''https://api.openverse.org/v1/auth_tokens/token/''"

definition token_call :: "string \<Rightarrow> string \<Rightarrow> net_call" where
  "token_call cid secret =
     Post token_url
       [(''client_id'', cid), (''client_secret'', secret),
        (''grant_type'', ''client_credentials'')]
       [(''Content-Type'', ''application/x-www-form-urlencoded'')]"

text \<open>
  \<^verbatim>\<open>response.data.access_token\<close>: reading a property of \<^verbatim>\<open>null\<close> throws a
  TypeError inside the \<^verbatim>\<open>try\<close> block.
\<close>

definition read_access_token :: "json \<Rightarrow> error + json option" where
  "read_access_token d =
     (case d of
        JNull \<Rightarrow>
          Inl (new_Error (''Cannot read properties of null (reading '' @ [CHR 0x27]
                 @ ''access_token'' @ [CHR 0x27] @ '')''))
      | _ \<Rightarrow> Inr (own_property d ''access_token''))"

text \<open>The \<^verbatim>\<open>catch\<close> block of \<^verbatim>\<open>getAccessToken\<close>: the message it rethrows.\<close>

definition token_errorMessage :: "error \<Rightarrow> string" where
  "token_errorMessage err =
     (let st = map_option status (response err);
          err_code = optional_chain (map_option data (response err)) ''error''
      in if st = Some 400 \<and> err_code = Some (JStr ''unsupported_grant_type'')
         then ''Unsupported grant_type. Contact openverse@wordpress.org for the correct grant_type.''
         else if st = Some 401
         then ''Authentication failed: Invalid client_id or client_secret''
         else if st = Some 429
         then ''Rate limit exceeded. Please try again later.''
         else ''Failed to obtain access token'')"

text \<open>
  The result is the token (or the error thrown) and the outbound calls made, in order.
  An environment variable that is unset or empty is falsy.
\<close>

definition getAccessToken :: "env \<Rightarrow> (error + json option) \<times> net_call list" where
  "getAccessToken e =
     (case (CLIENT_ID e, CLIENT_SECRET e) of
        (Some cid, Some secret) \<Rightarrow>
          if cid = [] \<or> secret = []
          then (Inl (new_Error
                  ''Missing OPENVERSE_CLIENT_ID or OPENVERSE_CLIENT_SECRET in .env file''), [])
          else
            (case axios e (token_call cid secret) of
               Inr resp \<Rightarrow>
                 (case read_access_token (data resp) of
                    Inr tok \<Rightarrow> Inr tok
                  | Inl err \<Rightarrow> Inl (new_Error (token_errorMessage err)))
             | Inl err \<Rightarrow> Inl (new_Error (token_errorMessage err)),
             [token_call cid secret])
      | _ \<Rightarrow>
          (Inl (new_Error
             ''Missing OPENVERSE_CLIENT_ID or OPENVERSE_CLIENT_SECRET in .env file''), []))"

section \<open>The route /api/search\<close>

text \<open>
  What the handler sends back: \<^verbatim>\<open>res.status(code).json(body)\<close>. A handler that
  throws sends nothing by itself: its result is then the error, on the left.
\<close>

record reply =
  code :: nat
  body :: json

definition validLicenses :: "string list" where
  "validLicenses = [''CC0'', ''BY'', ''BY-SA'', ''BY-NC'', ''BY-ND'', ''BY-NC-SA'', ''BY-NC-ND'']"

definition validMediaTypes :: "string list" where
  "validMediaTypes = [''images'', ''audio'']"

definition error_body :: "string \<Rightarrow> json" where
  "error_body msg = JObj [(''error'', JStr msg)]"

definition apiUrl :: "qval \<Rightarrow> qval \<Rightarrow> qval \<Rightarrow> string" where
  "apiUrl q mediaType apiLicense =
     ''https://api.openverse.org/v1/'' @ q_string mediaType @ ''?q=''
       @ encodeURIComponent (q_string q)
       @ (if q_truthy apiLicense then ''&license='' @ q_string apiLicense else [])"

text \<open>
  The \<^verbatim>\<open>catch\<close> block of the handler. For a 400 the message is built by a template
  literal around \<^verbatim>\<open>error.response?.data?.detail || '...'\<close>, whose conversion to a
  string can throw; nothing catches that, and the reply of the last line is then never
  sent. The reply status is \<^verbatim>\<open>error.response?.status || 500\<close>, and a status of 0 is
  falsy.
\<close>

definition search_errorMessage :: "error \<Rightarrow> error + string" where
  "search_errorMessage err =
     (let st = map_option status (response err) in
      if st = Some 400 then
        (let detail = optional_chain (map_option data (response err)) ''detail'' in
         case (if truthy detail then string_of detail
               else Inr ''Invalid parameters, possibly license'') of
           Inl thrown \<Rightarrow> Inl thrown
         | Inr t \<Rightarrow> Inr (''Bad request: '' @ t))
      else if st = Some 401 then Inr ''Authentication failed: Invalid or expired access token''
      else if st = Some 429 then Inr ''Rate limit exceeded. Please try again later.''
      else Inr (message err))"

definition search_catch :: "error \<Rightarrow> error + reply" where
  "search_catch err =
     (case search_errorMessage err of
        Inl thrown \<Rightarrow> Inl thrown
      | Inr errorMessage \<Rightarrow>
          Inr \<lparr>code = (case map_option status (response err) of
                         None \<Rightarrow> 500
                       | Some s \<Rightarrow> if s = 0 then 500 else s),
               body = error_body errorMessage\<rparr>)"

text \<open>
  The search request. The header \<^verbatim>\<open>Bearer ${accessToken}\<close> is built first, inside the
  \<^verbatim>\<open>try\<close> block; when the conversion of the token throws, no request is made.
\<close>

definition search_call :: "string \<Rightarrow> json option \<Rightarrow> error + net_call" where
  "search_call url accessToken =
     (case string_of accessToken of
        Inl thrown \<Rightarrow> Inl thrown
      | Inr t \<Rightarrow> Inr (Get url [(''Authorization'', ''Bearer '' @ t)]))"

text \<open>The \<^verbatim>\<open>try\<close> statement: token, upstream search, relay.\<close>

definition forward :: "env \<Rightarrow> string \<Rightarrow> (error + reply) \<times> net_call list" where
  "forward e url =
     (case getAccessToken e of
        (Inl err, calls) \<Rightarrow> (search_catch err, calls)
      | (Inr accessToken, calls) \<Rightarrow>
          (case search_call url accessToken of
             Inl err \<Rightarrow> (search_catch err, calls)
           | Inr call \<Rightarrow>
               (case axios e call of
                  Inr resp \<Rightarrow> (Inr \<lparr>code = 200, body = data resp\<rparr>, calls @ [call])
                | Inl err \<Rightarrow> (search_catch err, calls @ [call]))))"

text \<open>
  The handler reads \<^verbatim>\<open>q\<close>, \<^verbatim>\<open>mediaType\<close> and \<^verbatim>\<open>license\<close> off \<^verbatim>\<open>req.query\<close>,
  here a function from parameter names to values.
\<close>

definition search :: "env \<Rightarrow> (string \<Rightarrow> qval) \<Rightarrow> (error + reply) \<times> net_call list" where
  "search e query =
     (let q = query ''q''; mediaType = query ''mediaType''; license = query ''license'' in
      if \<not> includes_js validMediaTypes mediaType then
        (Inr \<lparr>code = 400,
              body = error_body (''Invalid mediaType. Must be one of: ''
                       @ join '', '' validMediaTypes)\<rparr>, [])
      else if q_truthy license \<and> \<not> includes_js validLicenses license then
        (Inr \<lparr>code = 400,
              body = error_body (''Invalid license. Must be one of: ''
                       @ join '', '' validLicenses)\<rparr>, [])
      else forward e (apiUrl q mediaType license))"

section \<open>The route /api/health\<close>

definition health :: "env \<Rightarrow> (string \<Rightarrow> qval) \<Rightarrow> reply \<times> net_call list" where
  "health e query =
     (\<lparr>code = 200,
       body = JObj [(''status'', JStr ''OK''), (''message'', JStr ''Server is running'')]\<rparr>, [])"

section \<open>Vocabulary of the specification\<close>

text \<open>
  The sets of the specification, written out independently of the arrays of the source.
\<close>

definition mediaType_ok :: "qval \<Rightarrow> bool" where
  "mediaType_ok v \<longleftrightarrow> v = QStr ''images'' \<or> v = QStr ''audio''"

definition license_listed :: "qval \<Rightarrow> bool" where
  "license_listed v \<longleftrightarrow>
     v \<in> {QStr ''CC0'', QStr ''BY'', QStr ''BY-SA'', QStr ''BY-NC'', QStr ''BY-ND'',
          QStr ''BY-NC-SA'', QStr ''BY-NC-ND''}"

text \<open>A license is present when the parameter is supplied with a non-empty value.\<close>

definition license_present :: "qval \<Rightarrow> bool" where
  "license_present v \<longleftrightarrow> v \<noteq> QUndefined \<and> v \<noteq> QStr []"

definition passes_validation :: "(string \<Rightarrow> qval) \<Rightarrow> bool" where
  "passes_validation query \<longleftrightarrow>
     mediaType_ok (query ''mediaType'') \<and>
     (query ''license'' = QUndefined \<or> query ''license'' = QStr [] \<or>
      license_listed (query ''license''))"

text \<open>Both credentials are set and non-empty.\<close>

definition configured :: "env \<Rightarrow> string \<Rightarrow> string \<Rightarrow> bool" where
  "configured e cid secret \<longleftrightarrow>
     CLIENT_ID e = Some cid \<and> cid \<noteq> [] \<and> CLIENT_SECRET e = Some secret \<and> secret \<noteq> []"

definition missing :: "string option \<Rightarrow> bool" where
  "missing v \<longleftrightarrow> v = None \<or> v = Some []"

text \<open>An upstream answer is a success when it is a 2xx response.\<close>

fun succeeded :: "http_outcome \<Rightarrow> bool" where
  "succeeded (Http_response s d) = (200 \<le> s \<and> s < 300)"
| "succeeded (No_response m) = False"

text \<open>
  The token provider's table of section 4.1: from the answer of the token endpoint to the
  message of the error thrown. The upstream error code is the string member \<^verbatim>\<open>error\<close>
  of the response body.
\<close>

definition upstream_error_code :: "json \<Rightarrow> string option" where
  "upstream_error_code d =
     (case d of
        JObj kvs \<Rightarrow> (case map_of kvs ''error'' of Some (JStr c) \<Rightarrow> Some c | _ \<Rightarrow> None)
      | _ \<Rightarrow> None)"

definition spec_token_message :: "http_outcome \<Rightarrow> string" where
  "spec_token_message out =
     (case out of
        Http_response s d \<Rightarrow>
          if s = 400 \<and> upstream_error_code d = Some ''unsupported_grant_type''
          then ''Unsupported grant_type. Contact openverse@wordpress.org for the correct grant_type.''
          else if s = 401 then ''Authentication failed: Invalid client_id or client_secret''
          else if s = 429 then ''Rate limit exceeded. Please try again later.''
          else ''Failed to obtain access token''
      | No_response m \<Rightarrow> ''Failed to obtain access token'')"

text \<open>
  The search error of section 7: the upstream status when there is one, the message
  refined for 400, 401 and 429 and otherwise the message of the failed request; 500 with
  the raw message when there is no response. For a 400 the refined message quotes the
  member \<^verbatim>\<open>detail\<close> of the upstream body when it has a truthy one. The table has no
  entry for a 400 whose detail has no text.
\<close>

definition upstream_detail :: "json \<Rightarrow> string option" where
  "upstream_detail d =
     (case d of
        JObj kvs \<Rightarrow>
          (case map_of kvs ''detail'' of
             Some v \<Rightarrow>
               if truthy (Some v)
               then (case to_string v of Inr t \<Rightarrow> Some t | Inl thrown \<Rightarrow> None)
               else Some ''Invalid parameters, possibly license''
           | None \<Rightarrow> Some ''Invalid parameters, possibly license'')
      | _ \<Rightarrow> Some ''Invalid parameters, possibly license'')"

definition spec_search_error :: "http_outcome \<Rightarrow> reply option" where
  "spec_search_error out =
     (case out of
        Http_response s d \<Rightarrow>
          if s = 400 then
            map_option
              (\<lambda>t. \<lparr>code = 400, body = JObj [(''error'', JStr (''Bad request: '' @ t))]\<rparr>)
              (upstream_detail d)
          else
            Some \<lparr>code = s,
                  body = JObj [(''error'', JStr
                    (if s = 401 then ''Authentication failed: Invalid or expired access token''
                     else if s = 429 then ''Rate limit exceeded. Please try again later.''
                     else ''Request failed with status code '' @ show_nat s))]\<rparr>
      | No_response m \<Rightarrow> Some \<lparr>code = 500, body = JObj [(''error'', JStr m)]\<rparr>)"

fun status_present :: "http_outcome \<Rightarrow> bool" where
  "status_present (Http_response s d) = (s \<noteq> 0)"
| "status_present (No_response m) = True"

text \<open>
  The upstream URL of section 4.2, step 4, from the media type, the search text if any
  and the license if any.
\<close>

definition spec_url :: "string \<Rightarrow> string option \<Rightarrow> string option \<Rightarrow> string" where
  "spec_url mt text lic =
     ''https://api.openverse.org/v1/'' @ mt @ ''?q=''
       @ encodeURIComponent (case text of None \<Rightarrow> ''undefined'' | Some t \<Rightarrow> t)
       @ (case lic of None \<Rightarrow> [] | Some l \<Rightarrow> ''&license='' @ l)"

text \<open>
  What makes a string the URL encoding of a text: it is written in the unreserved
  characters and the percent sign only, and percent-decoding it gives the octets of the
  text back. Decoding reads a percent sign and two upper-case hexadecimal digits as one
  octet and every other character as itself.
\<close>

definition url_safe :: "char \<Rightarrow> bool" where
  "url_safe c \<longleftrightarrow>
     c = CHR ''%'' \<or> c = CHR 0x27 \<or>
     c \<in> set ''ABCDEFGHIJKLMNOPQRSTUVWXYZabcdefghijklmnopqrstuvwxyz0123456789-_.!~*()''"

definition hex_value :: "char \<Rightarrow> nat option" where
  "hex_value c = map_of (zip ''0123456789ABCDEF'' [0..<16]) c"

fun url_decode :: "string \<Rightarrow> string option" where
  "url_decode [] = Some []"
| "url_decode (c # cs) =
     (if c = CHR ''%'' then
        (case cs of
           h # l # rest \<Rightarrow>
             (case (hex_value h, hex_value l) of
                (Some a, Some b) \<Rightarrow> map_option ((#) (char_of (16 * a + b))) (url_decode rest)
              | _ \<Rightarrow> None)
         | _ \<Rightarrow> None)
      else map_option ((#) c) (url_decode cs))"

text \<open>
  The search text and the license a request supplies. A repeated \<^verbatim>\<open>q\<close> reaches the
  handler as an array, whose text is its elements joined by commas.
\<close>

fun supplied_text :: "qval \<Rightarrow> string option" where
  "supplied_text QUndefined = None"
| "supplied_text (QStr s) = Some s"
| "supplied_text (QArr xs) = Some (join '','' xs)"

fun supplied_license :: "qval \<Rightarrow> string option" where
  "supplied_license (QStr s) = (if s = [] then None else Some s)"
| "supplied_license _ = None"

text \<open>The URLs of the search calls among the outbound calls.\<close>

fun search_urls :: "net_call list \<Rightarrow> string list" where
  "search_urls [] = []"
| "search_urls (Get u hs # calls) = u # search_urls calls"
| "search_urls (Post u ps hs # calls) = search_urls calls"

section \<open>Example requests and environments\<close>

definition cat_images :: "string \<Rightarrow> qval" where
  "cat_images = (\<lambda>k. QUndefined)(''q'' := QStr ''cat'', ''mediaType'' := QStr ''images'')"

text \<open>
  The French for "coffee & tea": each e with an acute accent (U+00E9) is the two octets
  C3 A9.
\<close>

definition cafe_the :: string where
  "cafe_the = ''caf'' @ [CHR 0xC3, CHR 0xA9] @ '' & th'' @ [CHR 0xC3, CHR 0xA9]"

definition token_granted :: http_outcome where
  "token_granted = Http_response 200 (JObj [(''access_token'', JStr ''tok'')])"

definition no_results :: json where
  "no_results = JObj [(''result_count'', JNum True ''0''), (''results'', JArr [])]"

definition example_env :: "http_outcome \<Rightarrow> http_outcome \<Rightarrow> env" where
  "example_env token_answer search_answer =
     \<lparr>CLIENT_ID = Some ''id'', CLIENT_SECRET = Some ''secret'',
      upstream = (\<lambda>call. case call of Post u ps hs \<Rightarrow> token_answer
                                     | Get u hs \<Rightarrow> search_answer)\<rparr>"

definition healthy_env :: env where
  "healthy_env = example_env token_granted (Http_response 200 no_results)"

definition invalid_client_env :: env where
  "invalid_client_env =
     example_env (Http_response 401 (JObj [(''error'', JStr ''invalid_client'')]))
       (Http_response 200 no_results)"

definition unsupported_grant_env :: env where
  "unsupported_grant_env =
     example_env (Http_response 400 (JObj [(''error'', JStr ''unsupported_grant_type'')]))
       (Http_response 200 no_results)"

definition throttled_env :: env where
  "throttled_env =
     example_env token_granted
       (Http_response 429 (JObj [(''detail'', JStr ''Request was throttled.'')]))"

definition no_secret_env :: env where
  "no_secret_env = healthy_env\<lparr>CLIENT_SECRET := Some []\<rparr>"

text \<open>
  An upstream that answers the search with a 400 whose \<^verbatim>\<open>detail\<close> is the object
  \<^verbatim>\<open>{"toString": "x"}\<close>, and one that grants such an object as the token.
\<close>

definition object_detail :: json where
  "object_detail = JObj [(''detail'', JObj [(''toString'', JStr ''x'')])]"

definition object_detail_env :: env where
  "object_detail_env = example_env token_granted (Http_response 400 object_detail)"

definition object_token_env :: env where
  "object_token_env =
     example_env
       (Http_response 200 (JObj [(''access_token'', JObj [(''toString'', JStr ''x'')])]))
       (Http_response 200 no_results)"

section \<open>Facts about the handlers\<close>

lemmas example_defs =
  healthy_env_def invalid_client_env_def unsupported_grant_env_def throttled_env_def
  no_secret_env_def object_detail_env_def object_token_env_def object_detail_def
  example_env_def token_granted_def no_results_def cat_images_def
  getAccessToken_def axios_def token_call_def token_url_def read_access_token_def
  search_call_def string_of_def apiUrl_def encodeURIComponent_def encode_unit_def
  unescaped_def mediaType_ok_def license_listed_def license_present_def
  passes_validation_def configured_def missing_def

lemma includes_validMediaTypes: "includes_js validMediaTypes v = mediaType_ok v"
  by (cases v) (auto simp: validMediaTypes_def mediaType_ok_def)

lemma includes_validLicenses: "includes_js validLicenses v = license_listed v"
  by (cases v) (auto simp: validLicenses_def license_listed_def)

lemma q_truthy_present: "q_truthy v = license_present v"
  by (cases v) (auto simp: license_present_def)

lemma join_validMediaTypes: "join '', '' validMediaTypes = ''images, audio''"
  by (simp add: validMediaTypes_def)

lemma join_validLicenses:
  "join '', '' validLicenses = ''CC0, BY, BY-SA, BY-NC, BY-ND, BY-NC-SA, BY-NC-ND''"
  by (simp add: validLicenses_def)

lemma search_validated:
  assumes "mediaType_ok (query ''mediaType'')"
    and "\<not> license_present (query ''license'') \<or> license_listed (query ''license'')"
  shows "search e query =
    forward e (apiUrl (query ''q'') (query ''mediaType'') (query ''license''))"
  using assms
  by (auto simp add: search_def Let_def includes_validMediaTypes includes_validLicenses
       q_truthy_present)

lemma passes_validation_forward:
  "passes_validation query \<Longrightarrow>
   search e query = forward e (apiUrl (query ''q'') (query ''mediaType'') (query ''license''))"
  by (rule search_validated) (auto simp: passes_validation_def license_present_def)

lemma optional_chain_error_code:
  "(optional_chain (Some d) ''error'' = Some (JStr c)) = (upstream_error_code d = Some c)"
  by (cases d) (auto simp: upstream_error_code_def split: option.splits json.splits)

lemma token_errorMessage_axios:
  "axios e call = Inl err \<Longrightarrow> token_errorMessage err = spec_token_message (upstream e call)"
  by (auto simp: axios_def token_errorMessage_def spec_token_message_def Let_def
        optional_chain_error_code split: http_outcome.splits if_splits)

lemma axios_Inl_iff: "(\<exists>err. axios e call = Inl err) = (\<not> succeeded (upstream e call))"
  by (cases "upstream e call") (auto simp: axios_def)

lemma getAccessToken_failure:
  assumes "configured e cid secret" and "\<not> succeeded (upstream e (token_call cid secret))"
  shows "getAccessToken e =
    (Inl (new_Error (spec_token_message (upstream e (token_call cid secret)))),
     [token_call cid secret])"
proof -
  from assms(2) obtain err where a: "axios e (token_call cid secret) = Inl err"
    using axios_Inl_iff by blast
  then have "token_errorMessage err = spec_token_message (upstream e (token_call cid secret))"
    by (rule token_errorMessage_axios)
  with a assms(1) show ?thesis
    by (simp add: getAccessToken_def configured_def)
qed

lemma getAccessToken_missing:
  "missing (CLIENT_ID e) \<or> missing (CLIENT_SECRET e) \<Longrightarrow>
   getAccessToken e =
     (Inl (new_Error ''Missing OPENVERSE_CLIENT_ID or OPENVERSE_CLIENT_SECRET in .env file''), [])"
  by (auto simp: getAccessToken_def missing_def split: option.splits)

lemma getAccessToken_no_search: "search_urls (snd (getAccessToken e)) = []"
  by (simp add: getAccessToken_def token_call_def split: option.splits)

text \<open>An error without a response, such as a rethrown or a type error, is answered 500.\<close>

lemma search_catch_new_Error:
  "search_catch (new_Error msg) = Inr \<lparr>code = 500, body = JObj [(''error'', JStr msg)]\<rparr>"
  by (simp add: search_catch_def search_errorMessage_def new_Error_def error_body_def)

lemma to_string_thrown: "to_string v = Inl thrown \<Longrightarrow> thrown = new_Error ''Cannot convert object to primitive value''"
proof (induction v arbitrary: thrown rule: to_string.induct)
  case (5 xs)
  have "collect (map (\<lambda>x. case x of JNull \<Rightarrow> Inr [] | _ \<Rightarrow> to_string x) ys) = Inl t \<Longrightarrow>
      set ys \<subseteq> set xs \<Longrightarrow> t = new_Error ''Cannot convert object to primitive value''" for ys t
  proof (induction ys)
    case Nil
    then show ?case by simp
  next
    case (Cons y ys)
    show ?case
    proof (cases "case y of JNull \<Rightarrow> Inr [] | _ \<Rightarrow> to_string y")
      case (Inl a)
      with Cons.prems have "t = a" by simp
      moreover from Inl have "to_string y = Inl a" by (cases y) simp_all
      moreover have "y \<in> set xs" using Cons.prems by simp
      ultimately show ?thesis using "5.IH" by (cases y) auto
    next
      case (Inr b)
      with Cons show ?thesis by (simp split: sum.splits)
    qed
  qed
  with "5.prems" show ?case
    by (auto split: sum.splits)
qed (auto split: option.splits)

text \<open>
  The reply to a failed search, wherever the table of the specification has an entry
  and the upstream status is not the falsy 0.
\<close>

lemma search_catch_axios:
  assumes "axios e call = Inl err"
    and "spec_search_error (upstream e call) = Some r"
    and "status_present (upstream e call)"
  shows "search_catch err = Inr r"
proof (cases "upstream e call")
  case (Http_response s d)
  with assms have err: "err = \<lparr>message = ''Request failed with status code '' @ show_nat s,
      response = Some \<lparr>status = s, data = d\<rparr>\<rparr>" and s: "s \<noteq> 0"
    by (auto simp: axios_def split: if_splits)
  show ?thesis
  proof (cases "s = 400")
    case True
    with assms(2) Http_response obtain t where t: "upstream_detail d = Some t"
      and r: "r = \<lparr>code = 400, body = JObj [(''error'', JStr (''Bad request: '' @ t))]\<rparr>"
      by (auto simp: spec_search_error_def)
    from t have "(if truthy (optional_chain (Some d) ''detail'')
        then string_of (optional_chain (Some d) ''detail'')
        else Inr ''Invalid parameters, possibly license'') = Inr t"
      by (cases d)
         (auto simp: upstream_detail_def string_of_def split: option.splits sum.splits if_splits)
    then show ?thesis
      by (simp add: err r True search_catch_def search_errorMessage_def error_body_def)
  next
    case False
    with assms(2) Http_response s show ?thesis
      by (auto simp: err search_catch_def search_errorMessage_def spec_search_error_def
            error_body_def)
  qed
next
  case (No_response m)
  with assms have "err = \<lparr>message = m, response = None\<rparr>"
    by (simp add: axios_def)
  with assms(2) No_response show ?thesis
    by (auto simp: search_catch_def search_errorMessage_def spec_search_error_def
          error_body_def)
qed

lemma forward_token_error:
  "fst (getAccessToken e) = Inl err \<Longrightarrow> forward e url = (search_catch err, snd (getAccessToken e))"
  by (cases "getAccessToken e") (simp add: forward_def)

lemma forward_token_ok:
  assumes "fst (getAccessToken e) = Inr tok" and "search_call url tok = Inr call"
  shows "forward e url =
     (case axios e call of
        Inr resp \<Rightarrow> Inr \<lparr>code = 200, body = data resp\<rparr>
      | Inl err \<Rightarrow> search_catch err,
      snd (getAccessToken e) @ [call])"
  using assms by (cases "getAccessToken e") (simp add: forward_def split: sum.splits)

text \<open>
  A token that cannot be put into the header: the type error is caught, the reply is
  500 and no search is made.
\<close>

lemma forward_token_unusable:
  assumes "fst (getAccessToken e) = Inr tok" and "search_call url tok = Inl thrown"
  shows "forward e url =
     (Inr \<lparr>code = 500,
           body = JObj [(''error'', JStr ''Cannot convert object to primitive value'')]\<rparr>,
      snd (getAccessToken e))"
proof -
  from assms(2) have "thrown = new_Error ''Cannot convert object to primitive value''"
    by (auto simp: search_call_def string_of_def split: option.splits sum.splits
          dest: to_string_thrown)
  with assms show ?thesis
    by (cases "getAccessToken e") (simp add: forward_def search_catch_new_Error)
qed

lemma search_call_url: "search_call url tok = Inr call \<Longrightarrow> search_urls [call] = [url]"
  by (auto simp: search_call_def split: sum.splits)

lemma search_urls_append: "search_urls (xs @ ys) = search_urls xs @ search_urls ys"
  by (induction xs rule: search_urls.induct) simp_all

lemma apiUrl_spec_url:
  assumes "passes_validation query" and "query ''mediaType'' = QStr mt"
  shows "apiUrl (query ''q'') (query ''mediaType'') (query ''license'')
    = spec_url mt (supplied_text (query ''q'')) (supplied_license (query ''license''))"
proof -
  have q: "q_string v = (case supplied_text v of None \<Rightarrow> ''undefined'' | Some t \<Rightarrow> t)" for v
    by (cases v) simp_all
  have l: "(if q_truthy v then ''&license='' @ q_string v else [])
      = (case supplied_license v of None \<Rightarrow> [] | Some l \<Rightarrow> ''&license='' @ l)"
    if "v = QUndefined \<or> v = QStr [] \<or> license_listed v" for v
    using that by (cases v) (auto simp: license_listed_def)
  from assms(1) have "query ''license'' = QUndefined \<or> query ''license'' = QStr [] \<or>
      license_listed (query ''license'')"
    by (simp add: passes_validation_def)
  then have "(if q_truthy (query ''license'')
        then ''&license='' @ q_string (query ''license'') else [])
      = (case supplied_license (query ''license'') of None \<Rightarrow> []
         | Some l \<Rightarrow> ''&license='' @ l)"
    by (rule l)
  then show ?thesis
    unfolding apiUrl_def spec_url_def by (simp only: q [symmetric] assms(2) q_string.simps)
qed

text \<open>The encoder against the two properties of a URL encoding.\<close>

lemma hex_value_hex_digit: "hex_value (hex_digit n) = Some (n mod 16)"
proof -
  have "list_all (\<lambda>k. hex_value (''0123456789ABCDEF'' ! k) = Some k) [0..<16]"
    by code_simp
  moreover have "n mod 16 \<in> set [0..<16]"
    by simp
  ultimately show ?thesis
    unfolding hex_digit_def list_all_iff by blast
qed

lemma url_safe_hex_digit: "url_safe (hex_digit n)"
proof -
  have "list_all (\<lambda>k. url_safe (''0123456789ABCDEF'' ! k)) [0..<16]"
    by code_simp
  moreover have "n mod 16 \<in> set [0..<16]"
    by simp
  ultimately show ?thesis
    unfolding hex_digit_def list_all_iff by blast
qed

lemma unescaped_url_safe: "unescaped c \<Longrightarrow> url_safe c \<and> c \<noteq> CHR ''%''"
  by (auto simp: unescaped_def url_safe_def)

lemma url_decode_encode_unit:
  "url_decode (encode_unit c @ rest) = map_option ((#) c) (url_decode rest)"
proof (cases "unescaped c")
  case True
  then have "c \<noteq> CHR ''%''"
    by (simp add: unescaped_url_safe)
  with True show ?thesis
    by (simp add: encode_unit_def)
next
  case False
  let ?n = "of_char c :: nat"
  have "?n < 256"
    by simp
  then have "?n div 16 < 16"
    by presburger
  then have hi: "hex_value (hex_digit (?n div 16)) = Some (?n div 16)"
    by (simp add: hex_value_hex_digit)
  have lo: "hex_value (hex_digit ?n) = Some (?n mod 16)"
    by (rule hex_value_hex_digit)
  have whole: "char_of (16 * (?n div 16) + ?n mod 16) = c"
    by simp
  have "url_decode (percent ?n @ rest) = map_option ((#) c) (url_decode rest)"
    by (simp add: percent_def hi lo whole)
  with False show ?thesis
    by (simp add: encode_unit_def)
qed

lemma url_decode_encodeURIComponent: "url_decode (encodeURIComponent t) = Some t"
  unfolding encodeURIComponent_def
  by (induction t) (simp_all add: url_decode_encode_unit)

lemma url_safe_encode_unit: "list_all url_safe (encode_unit c)"
proof (cases "unescaped c")
  case True
  then show ?thesis
    using unescaped_url_safe [of c] by (simp add: encode_unit_def)
next
  case False
  moreover have "url_safe CHR ''%''"
    by (simp add: url_safe_def)
  ultimately show ?thesis
    by (simp add: encode_unit_def percent_def url_safe_hex_digit)
qed

lemma url_safe_encodeURIComponent: "list_all url_safe (encodeURIComponent t)"
  unfolding encodeURIComponent_def
  by (induction t) (simp_all add: url_safe_encode_unit)

lemma encodeURIComponent_undefined: "encodeURIComponent ''undefined'' = ''undefined''"
  by (simp add: encodeURIComponent_def encode_unit_def unescaped_def)

text \<open>No reply built by the \<^verbatim>\<open>try\<close> statement is the rejection of a license.\<close>

lemma search_catch_not_license_rejection:
  "search_catch err \<noteq>
     Inr \<lparr>code = 400, body = JObj [(''error'', JStr
        ''Invalid license. Must be one of: CC0, BY, BY-SA, BY-NC, BY-ND, BY-NC-SA, BY-NC-ND'')]\<rparr>"
  by (auto simp: search_catch_def search_errorMessage_def error_body_def Let_def
        split: option.splits if_splits sum.splits)

lemma forward_not_license_rejection:
  "fst (forward e url) \<noteq>
     Inr \<lparr>code = 400, body = JObj [(''error'', JStr
        ''Invalid license. Must be one of: CC0, BY, BY-SA, BY-NC, BY-ND, BY-NC-SA, BY-NC-ND'')]\<rparr>"
  by (cases "getAccessToken e")
     (auto simp: forward_def search_catch_not_license_rejection split: sum.splits)

text \<open>
  A token endpoint that grants an object with an own \<^verbatim>\<open>toString\<close> member as the
  token: the header cannot be built, the type error is caught and answered 500, and no
  search is made.
\<close>

lemma object_token_reply:
  "search object_token_env cat_images =
     (Inr \<lparr>code = 500,
           body = JObj [(''error'', JStr ''Cannot convert object to primitive value'')]\<rparr>,
      [token_call ''id'' ''secret''])"
  by (simp add: example_defs search_def Let_def validMediaTypes_def validLicenses_def
        forward_def search_catch_def search_errorMessage_def new_Error_def error_body_def)

text \<open>
  The reply to a failed search, for every upstream answer that the table of the
  specification covers.
\<close>

lemma search_failure_reply:
  assumes "passes_validation query"
    and "fst (getAccessToken e) = Inr tok"
    and "search_call (apiUrl (query ''q'') (query ''mediaType'') (query ''license'')) tok
         = Inr call"
    and "\<not> succeeded (upstream e call)"
    and "status_present (upstream e call)"
    and "spec_search_error (upstream e call) = Some r"
  shows "fst (search e query) = Inr r"
proof -
  from assms(4) obtain err where a: "axios e call = Inl err"
    using axios_Inl_iff [of e call] by auto
  then have "search_catch err = Inr r"
    using assms(5,6) by (simp add: search_catch_axios)
  with a show ?thesis
    by (simp add: passes_validation_forward [OF assms(1)] forward_token_ok [OF assms(2,3)])
qed

lemma throttled_search_reply:
  "fst (search throttled_env cat_images) =
     Inr \<lparr>code = 429,
          body = JObj [(''error'', JStr ''Rate limit exceeded. Please try again later.'')]\<rparr>"
proof -
  let ?call = "Get ''https://api.openverse.org/v1/images?q=cat''
      [(''Authorization'', ''Bearer tok'')]"
  have v: "passes_validation cat_images"
    by (simp add: example_defs)
  have t: "fst (getAccessToken throttled_env) = Inr (Some (JStr ''tok''))"
    by (simp add: example_defs)
  have c: "search_call
        (apiUrl (cat_images ''q'') (cat_images ''mediaType'') (cat_images ''license''))
        (Some (JStr ''tok'')) = Inr ?call"
    by (simp add: example_defs)
  have u: "upstream throttled_env ?call
      = Http_response 429 (JObj [(''detail'', JStr ''Request was throttled.'')])"
    by (simp add: example_defs)
  show ?thesis
    by (rule search_failure_reply [OF v t c]) (simp_all add: u spec_search_error_def)
qed

section \<open>The claims of the specification\<close>

text \<open>
  Claim C1. When the media type is \<open>images\<close> or \<open>audio\<close>, the license (if supplied) is
  one of the seven, the token fetch succeeds and the upstream search answers with a 2xx
  status, the handler replies 200 with exactly the body the upstream sent. The upstream
  search is the request the handler makes with the token in its \<open>Authorization\<close>
  header; a token that cannot be put there leads to no search at all and to the reply of
  \<open>forward_token_unusable\<close>.
\<close>

theorem search_success_relays_body:
  assumes "mediaType_ok (query ''mediaType'')"
    and "query ''license'' = QUndefined \<or> license_listed (query ''license'')"
    and "fst (getAccessToken e) = Inr tok"
    and "search_call (apiUrl (query ''q'') (query ''mediaType'') (query ''license'')) tok
         = Inr call"
    and "upstream e call = Http_response s d"
    and "200 \<le> s" and "s < 300"
  shows "fst (search e query) = Inr \<lparr>code = 200, body = d\<rparr>"
proof -
  from assms(1,2) have "passes_validation query"
    by (auto simp: passes_validation_def)
  then have "search e query =
      forward e (apiUrl (query ''q'') (query ''mediaType'') (query ''license''))"
    by (rule passes_validation_forward)
  moreover have "axios e call = Inr \<lparr>status = s, data = d\<rparr>"
    using assms(5-7) by (simp add: axios_def)
  ultimately show ?thesis
    by (simp add: forward_token_ok [OF assms(3,4)])
qed

theorem search_success_relays_body_witness:
  "mediaType_ok (cat_images ''mediaType'') \<and>
   cat_images ''license'' = QUndefined \<and>
   fst (getAccessToken healthy_env) = Inr (Some (JStr ''tok'')) \<and>
   search_call (apiUrl (cat_images ''q'') (cat_images ''mediaType'') (cat_images ''license''))
     (Some (JStr ''tok''))
     = Inr (Get ''https://api.openverse.org/v1/images?q=cat''
              [(''Authorization'', ''Bearer tok'')]) \<and>
   upstream healthy_env
     (Get ''https://api.openverse.org/v1/images?q=cat'' [(''Authorization'', ''Bearer tok'')])
     = Http_response 200 no_results \<and>
   fst (search healthy_env cat_images) = Inr \<lparr>code = 200, body = no_results\<rparr>"
proof -
  let ?call = "Get ''https://api.openverse.org/v1/images?q=cat''
      [(''Authorization'', ''Bearer tok'')]"
  have m: "mediaType_ok (cat_images ''mediaType'')"
    by (simp add: example_defs)
  have l: "cat_images ''license'' = QUndefined \<or> license_listed (cat_images ''license'')"
    by (simp add: example_defs)
  have t: "fst (getAccessToken healthy_env) = Inr (Some (JStr ''tok''))"
    by (simp add: example_defs)
  have c: "search_call
        (apiUrl (cat_images ''q'') (cat_images ''mediaType'') (cat_images ''license''))
        (Some (JStr ''tok'')) = Inr ?call"
    by (simp add: example_defs)
  have u: "upstream healthy_env ?call = Http_response 200 no_results"
    by (simp add: example_defs)
  have "fst (search healthy_env cat_images) = Inr \<lparr>code = 200, body = no_results\<rparr>"
    using search_success_relays_body [OF m l t c u] by simp
  moreover have "cat_images ''license'' = QUndefined"
    by (simp add: example_defs)
  ultimately show ?thesis
    using m t c u by blast
qed

text \<open>
  Claim C2. Whenever the \<open>mediaType\<close> parameter is not \<open>images\<close> or \<open>audio\<close>, be it
  absent, empty, another string or an array, the handler replies 400 with a message that
  names the two allowed values, and makes no outbound call.
\<close>

theorem search_rejects_mediaType:
  assumes "\<not> mediaType_ok (query ''mediaType'')"
  shows "search e query =
     (Inr \<lparr>code = 400,
           body = JObj [(''error'', JStr ''Invalid mediaType. Must be one of: images, audio'')]\<rparr>,
      [])"
  using assms
  by (simp add: search_def Let_def includes_validMediaTypes join_validMediaTypes error_body_def)

theorem search_rejects_mediaType_witness:
  "\<not> mediaType_ok ((\<lambda>k. QUndefined) ''mediaType'') \<and>
   search healthy_env (\<lambda>k. QUndefined) =
     (Inr \<lparr>code = 400,
           body = JObj [(''error'', JStr ''Invalid mediaType. Must be one of: images, audio'')]\<rparr>,
      [])"
proof -
  have h: "\<not> mediaType_ok ((\<lambda>k. QUndefined) ''mediaType'')"
    by (simp add: mediaType_ok_def)
  show ?thesis
    using h search_rejects_mediaType [OF h, of healthy_env] by simp
qed

text \<open>
  Claim C3. With a valid media type and a license that is present but not one of the
  seven, the handler replies 400 with a message that lists the seven, and makes no
  outbound call at all: neither the token fetch nor the search. Present is what the
  guard \<^verbatim>\<open>license && ...\<close> tests: supplied and not the empty string.
\<close>

theorem search_rejects_license:
  assumes "mediaType_ok (query ''mediaType'')"
    and "license_present (query ''license'')"
    and "\<not> license_listed (query ''license'')"
  shows "search e query =
     (Inr \<lparr>code = 400,
           body = JObj [(''error'', JStr
             ''Invalid license. Must be one of: CC0, BY, BY-SA, BY-NC, BY-ND, BY-NC-SA, BY-NC-ND'')]\<rparr>,
      [])"
  using assms
  by (simp add: search_def Let_def includes_validMediaTypes includes_validLicenses
       q_truthy_present join_validLicenses error_body_def)

theorem search_rejects_license_witness:
  "mediaType_ok ((cat_images(''license'' := QStr ''PD'')) ''mediaType'') \<and>
   license_present ((cat_images(''license'' := QStr ''PD'')) ''license'') \<and>
   \<not> license_listed ((cat_images(''license'' := QStr ''PD'')) ''license'') \<and>
   search healthy_env (cat_images(''license'' := QStr ''PD'')) =
     (Inr \<lparr>code = 400,
           body = JObj [(''error'', JStr
             ''Invalid license. Must be one of: CC0, BY, BY-SA, BY-NC, BY-ND, BY-NC-SA, BY-NC-ND'')]\<rparr>,
      [])"
proof -
  have m: "mediaType_ok ((cat_images(''license'' := QStr ''PD'')) ''mediaType'')"
    by (simp add: example_defs)
  have p: "license_present ((cat_images(''license'' := QStr ''PD'')) ''license'')"
    by (simp add: example_defs)
  have n: "\<not> license_listed ((cat_images(''license'' := QStr ''PD'')) ''license'')"
    by (simp add: example_defs)
  show ?thesis
    using m p n search_rejects_license [OF m p n, of healthy_env] by blast
qed

text \<open>
  Claim C4, as amended. When both credentials are set and the token endpoint answers 401,
  a request that passes validation is answered with the message
  \<open>Authentication failed: Invalid client_id or client_secret\<close> under status 500: the
  token provider rethrows a plain error, so the status of the token endpoint does not
  reach the caller. The token call is the only outbound call.
\<close>

theorem token_401_surfaces_as_500:
  assumes "configured e cid secret"
    and "upstream e (token_call cid secret) = Http_response 401 d"
    and "passes_validation query"
  shows "search e query =
     (Inr \<lparr>code = 500,
           body = JObj [(''error'',
             JStr ''Authentication failed: Invalid client_id or client_secret'')]\<rparr>,
      [token_call cid secret])"
proof -
  have "\<not> succeeded (upstream e (token_call cid secret))"
    by (simp add: assms(2))
  with assms(1) have "getAccessToken e =
      (Inl (new_Error (spec_token_message (upstream e (token_call cid secret)))),
       [token_call cid secret])"
    by (rule getAccessToken_failure)
  then have "getAccessToken e =
      (Inl (new_Error ''Authentication failed: Invalid client_id or client_secret''),
       [token_call cid secret])"
    by (simp add: assms(2) spec_token_message_def)
  then show ?thesis
    by (simp add: passes_validation_forward [OF assms(3)] forward_def search_catch_new_Error)
qed

theorem token_401_surfaces_as_500_witness:
  "configured invalid_client_env ''id'' ''secret'' \<and>
   upstream invalid_client_env (token_call ''id'' ''secret'')
     = Http_response 401 (JObj [(''error'', JStr ''invalid_client'')]) \<and>
   passes_validation cat_images \<and>
   search invalid_client_env cat_images =
     (Inr \<lparr>code = 500,
           body = JObj [(''error'',
             JStr ''Authentication failed: Invalid client_id or client_secret'')]\<rparr>,
      [token_call ''id'' ''secret''])"
proof -
  have c: "configured invalid_client_env ''id'' ''secret''"
    by (simp add: example_defs)
  have u: "upstream invalid_client_env (token_call ''id'' ''secret'')
      = Http_response 401 (JObj [(''error'', JStr ''invalid_client'')])"
    by (simp add: example_defs)
  have v: "passes_validation cat_images"
    by (simp add: example_defs)
  show ?thesis
    using c u v token_401_surfaces_as_500 [OF c u v] by blast
qed

text \<open>
  The claim as stated fails: the token endpoint answers 401 to the request
  \<open>q=cat&mediaType=images\<close>, and the caller receives the message under status 500, not
  under 401.
\<close>

theorem token_401_status_counterexample:
  "upstream invalid_client_env (token_call ''id'' ''secret'')
     = Http_response 401 (JObj [(''error'', JStr ''invalid_client'')]) \<and>
   snd (search invalid_client_env cat_images) = [token_call ''id'' ''secret''] \<and>
   fst (search invalid_client_env cat_images) =
     Inr \<lparr>code = 500,
          body = JObj [(''error'',
            JStr ''Authentication failed: Invalid client_id or client_secret'')]\<rparr> \<and>
   fst (search invalid_client_env cat_images) \<noteq>
     Inr \<lparr>code = 401,
          body = JObj [(''error'',
            JStr ''Authentication failed: Invalid client_id or client_secret'')]\<rparr>"
  by (simp add: example_defs search_def Let_def validMediaTypes_def validLicenses_def
        forward_def token_errorMessage_def new_Error_def search_catch_def
        search_errorMessage_def error_body_def)

text \<open>
  Claim C5. With both credentials set, a failed token request (a non-2xx answer or no
  answer at all) makes the token provider throw an error whose message is given by the
  table: 400 with the upstream error code \<open>unsupported_grant_type\<close> gives the
  instructional message, 401 the invalid-credentials message, 429 the rate-limit message,
  and anything else the generic one.
\<close>

theorem token_failure_messages:
  assumes "configured e cid secret"
    and "upstream e (token_call cid secret) = out"
    and "\<not> succeeded out"
  shows "getAccessToken e = (Inl (new_Error (spec_token_message out)), [token_call cid secret])"
  using getAccessToken_failure [of e cid secret] assms by simp

theorem token_failure_messages_witness:
  "configured unsupported_grant_env ''id'' ''secret'' \<and>
   upstream unsupported_grant_env (token_call ''id'' ''secret'')
     = Http_response 400 (JObj [(''error'', JStr ''unsupported_grant_type'')]) \<and>
   \<not> succeeded (Http_response 400 (JObj [(''error'', JStr ''unsupported_grant_type'')])) \<and>
   getAccessToken unsupported_grant_env =
     (Inl (new_Error
        ''Unsupported grant_type. Contact openverse@wordpress.org for the correct grant_type.''),
      [token_call ''id'' ''secret''])"
proof -
  have c: "configured unsupported_grant_env ''id'' ''secret''"
    by (simp add: example_defs)
  have u: "upstream unsupported_grant_env (token_call ''id'' ''secret'')
      = Http_response 400 (JObj [(''error'', JStr ''unsupported_grant_type'')])"
    by (simp add: example_defs)
  have f: "\<not> succeeded (Http_response 400 (JObj [(''error'', JStr ''unsupported_grant_type'')]))"
    by simp
  have m: "spec_token_message (Http_response 400 (JObj [(''error'', JStr ''unsupported_grant_type'')]))
      = ''Unsupported grant_type. Contact openverse@wordpress.org for the correct grant_type.''"
    by (simp add: spec_token_message_def upstream_error_code_def)
  show ?thesis
    using c u f token_failure_messages [OF c u f] unfolding m by blast
qed

text \<open>
  Claim C6. The claim says that every failed upstream search is answered with the
  upstream status, or 500, and a body \<open>{error: string}\<close>. The code does so wherever the
  message can be built (\<open>search_failure_reply\<close>), but not always: the search endpoint
  answers the request \<open>q=cat&mediaType=images\<close> with a 400 whose \<open>detail\<close> is the object
  \<open>{"toString": "x"}\<close>; the template literal in the \<^verbatim>\<open>catch\<close> block throws a
  TypeError, and the handler ends with that error instead of a reply.
\<close>

theorem search_failure_detail_throws:
  "passes_validation cat_images \<and>
   fst (getAccessToken object_detail_env) = Inr (Some (JStr ''tok'')) \<and>
   upstream object_detail_env
     (Get ''https://api.openverse.org/v1/images?q=cat'' [(''Authorization'', ''Bearer tok'')])
     = Http_response 400 (JObj [(''detail'', JObj [(''toString'', JStr ''x'')])]) \<and>
   search object_detail_env cat_images =
     (Inl (new_Error ''Cannot convert object to primitive value''),
      [token_call ''id'' ''secret'',
       Get ''https://api.openverse.org/v1/images?q=cat'' [(''Authorization'', ''Bearer tok'')]])"
  by (simp add: example_defs search_def Let_def validMediaTypes_def validLicenses_def
        forward_def search_catch_def search_errorMessage_def)

text \<open>
  Claim C7. When the client identifier or the client secret is unset or empty, the token
  provider throws the missing-credentials error without making any outbound call, and a
  request that passes validation is answered with status 500 carrying that message.
\<close>

theorem missing_credentials_fail:
  assumes "missing (CLIENT_ID e) \<or> missing (CLIENT_SECRET e)"
  shows "getAccessToken e =
      (Inl (new_Error ''Missing OPENVERSE_CLIENT_ID or OPENVERSE_CLIENT_SECRET in .env file''),
       []) \<and>
    (passes_validation query \<longrightarrow>
       search e query =
         (Inr \<lparr>code = 500,
               body = JObj [(''error'',
                 JStr ''Missing OPENVERSE_CLIENT_ID or OPENVERSE_CLIENT_SECRET in .env file'')]\<rparr>,
          []))"
  using getAccessToken_missing [OF assms]
  by (simp add: passes_validation_forward forward_def search_catch_new_Error)

theorem missing_credentials_fail_witness:
  "(missing (CLIENT_ID no_secret_env) \<or> missing (CLIENT_SECRET no_secret_env)) \<and>
   passes_validation cat_images \<and>
   getAccessToken no_secret_env =
      (Inl (new_Error ''Missing OPENVERSE_CLIENT_ID or OPENVERSE_CLIENT_SECRET in .env file''),
       []) \<and>
   search no_secret_env cat_images =
     (Inr \<lparr>code = 500,
           body = JObj [(''error'',
             JStr ''Missing OPENVERSE_CLIENT_ID or OPENVERSE_CLIENT_SECRET in .env file'')]\<rparr>,
      [])"
proof -
  have m: "missing (CLIENT_ID no_secret_env) \<or> missing (CLIENT_SECRET no_secret_env)"
    by (simp add: example_defs)
  have v: "passes_validation cat_images"
    by (simp add: example_defs)
  show ?thesis
    using m v missing_credentials_fail [OF m, of cat_images] by blast
qed

text \<open>
  Claim C8. For a request that passes validation the handler goes on with exactly the
  URL \<open>https://api.openverse.org/v1/<mediaType>?q=<encoded q>\<close>, followed by
  \<open>&license=<license>\<close> when a license is present. Every search call it makes, one at
  most, goes to this URL, and it makes one as soon as the token is obtained and put into
  the header. When \<open>q\<close> is absent the text \<open>undefined\<close> stands in its place. The
  encoded text is a URL encoding: percent-decoding gives the text back, and it is written
  in the unreserved characters and the percent sign.
\<close>

theorem search_upstream_url:
  assumes "passes_validation query" and "query ''mediaType'' = QStr mt"
  shows "search e query =
      forward e (spec_url mt (supplied_text (query ''q'')) (supplied_license (query ''license''))) \<and>
    search_urls (snd (search e query)) =
      (case fst (getAccessToken e) of
         Inl err \<Rightarrow> []
       | Inr tok \<Rightarrow>
           (case search_call
              (spec_url mt (supplied_text (query ''q'')) (supplied_license (query ''license'')))
              tok of
              Inl thrown \<Rightarrow> []
            | Inr call \<Rightarrow>
                [spec_url mt (supplied_text (query ''q''))
                   (supplied_license (query ''license''))])) \<and>
    spec_url mt None lic =
      ''https://api.openverse.org/v1/'' @ mt @ ''?q=undefined''
        @ (case lic of None \<Rightarrow> [] | Some l \<Rightarrow> ''&license='' @ l) \<and>
    url_decode (encodeURIComponent t) = Some t \<and>
    list_all url_safe (encodeURIComponent t)"
proof -
  let ?url = "spec_url mt (supplied_text (query ''q'')) (supplied_license (query ''license''))"
  have s: "search e query = forward e ?url"
    using passes_validation_forward [OF assms(1), of e] apiUrl_spec_url [OF assms] by simp
  have "search_urls (snd (forward e ?url)) =
      (case fst (getAccessToken e) of
         Inl err \<Rightarrow> []
       | Inr tok \<Rightarrow> (case search_call ?url tok of Inl thrown \<Rightarrow> [] | Inr call \<Rightarrow> [?url]))"
  proof (cases "fst (getAccessToken e)")
    case (Inl err)
    then show ?thesis
      by (simp add: forward_token_error getAccessToken_no_search)
  next
    case (Inr tok)
    show ?thesis
    proof (cases "search_call ?url tok")
      case (Inl thrown)
      with Inr show ?thesis
        by (simp add: forward_token_unusable getAccessToken_no_search)
    next
      case call: (Inr call)
      with Inr show ?thesis
        using search_call_url [OF call]
        by (simp add: forward_token_ok search_urls_append getAccessToken_no_search)
    qed
  qed
  moreover have "spec_url mt None lic =
      ''https://api.openverse.org/v1/'' @ mt @ ''?q=undefined''
        @ (case lic of None \<Rightarrow> [] | Some l \<Rightarrow> ''&license='' @ l)"
    by (simp add: spec_url_def encodeURIComponent_undefined)
  ultimately show ?thesis
    using s url_decode_encodeURIComponent [of t] url_safe_encodeURIComponent [of t] by simp
qed

theorem search_upstream_url_witness:
  "passes_validation (cat_images(''q'' := QStr cafe_the, ''license'' := QStr ''BY-SA'')) \<and>
   (cat_images(''q'' := QStr cafe_the, ''license'' := QStr ''BY-SA'')) ''mediaType''
     = QStr ''images'' \<and>
   search_urls (snd (search healthy_env
       (cat_images(''q'' := QStr cafe_the, ''license'' := QStr ''BY-SA''))))
     = [''https://api.openverse.org/v1/images?q=caf%C3%A9%20%26%20th%C3%A9&license=BY-SA'']"
proof -
  let ?query = "cat_images(''q'' := QStr cafe_the, ''license'' := QStr ''BY-SA'')"
  let ?url = "''https://api.openverse.org/v1/images?q=caf%C3%A9%20%26%20th%C3%A9&license=BY-SA''"
  have v: "passes_validation ?query"
    by (simp add: example_defs)
  have m: "?query ''mediaType'' = QStr ''images''"
    by (simp add: example_defs)
  have t: "fst (getAccessToken healthy_env) = Inr (Some (JStr ''tok''))"
    by (simp add: example_defs)
  have u: "spec_url ''images'' (supplied_text (?query ''q'')) (supplied_license (?query ''license''))
      = ?url"
    by (simp add: spec_url_def encodeURIComponent_def encode_unit_def unescaped_def
          percent_def hex_digit_def cafe_the_def)
  have c: "search_call ?url (Some (JStr ''tok''))
      = Inr (Get ?url [(''Authorization'', ''Bearer tok'')])"
    by (simp add: search_call_def string_of_def)
  have "search_urls (snd (search healthy_env ?query)) =
      (case fst (getAccessToken healthy_env) of
         Inl err \<Rightarrow> []
       | Inr tok \<Rightarrow>
           (case search_call
              (spec_url ''images'' (supplied_text (?query ''q''))
                 (supplied_license (?query ''license'')))
              tok of
              Inl thrown \<Rightarrow> []
            | Inr call \<Rightarrow>
                [spec_url ''images'' (supplied_text (?query ''q''))
                   (supplied_license (?query ''license''))]))"
    using search_upstream_url [OF v m, of healthy_env None "[]"] by blast
  then have "search_urls (snd (search healthy_env ?query)) = [?url]"
    unfolding t u by (simp add: c)
  with v m show ?thesis
    by blast
qed

text \<open>
  Claim C9. The health handler replies 200 with the body
  \<open>{status: "OK", message: "Server is running"}\<close> and makes no outbound call, whatever the
  configuration, the upstream and the request are.
\<close>

theorem health_always_ok:
  "health e query =
     (\<lparr>code = 200,
       body = JObj [(''status'', JStr ''OK''), (''message'', JStr ''Server is running'')]\<rparr>,
      [])"
  by (simp add: health_def)

text \<open>
  Claim C10. With a valid media type, an empty \<open>license\<close> parameter is treated as an
  absent one: the handler behaves exactly as without the parameter, it goes on to the
  token fetch with a URL that carries no license parameter, and its reply is not the 400
  rejection of an invalid license.
\<close>

theorem empty_license_is_absent:
  assumes "query ''mediaType'' = QStr mt"
    and "mediaType_ok (QStr mt)"
    and "query ''license'' = QStr []"
  shows "search e query = search e (query(''license'' := QUndefined)) \<and>
    search e query =
      forward e (''https://api.openverse.org/v1/'' @ mt @ ''?q=''
                   @ encodeURIComponent (q_string (query ''q''))) \<and>
    fst (search e query) \<noteq>
      Inr \<lparr>code = 400, body = JObj [(''error'', JStr
        ''Invalid license. Must be one of: CC0, BY, BY-SA, BY-NC, BY-ND, BY-NC-SA, BY-NC-ND'')]\<rparr>"
proof -
  have v: "passes_validation query"
    using assms by (simp add: passes_validation_def)
  have v': "passes_validation (query(''license'' := QUndefined))"
    using assms by (simp add: passes_validation_def)
  have f: "search e query =
      forward e (''https://api.openverse.org/v1/'' @ mt @ ''?q=''
                   @ encodeURIComponent (q_string (query ''q'')))"
    using passes_validation_forward [OF v, of e] by (simp add: apiUrl_def assms)
  moreover have "search e (query(''license'' := QUndefined)) =
      forward e (''https://api.openverse.org/v1/'' @ mt @ ''?q=''
                   @ encodeURIComponent (q_string (query ''q'')))"
    using passes_validation_forward [OF v', of e] by (simp add: apiUrl_def assms)
  ultimately show ?thesis
    using forward_not_license_rejection [of e] by simp
qed

theorem empty_license_is_absent_witness:
  "(cat_images(''license'' := QStr [])) ''mediaType'' = QStr ''images'' \<and>
   mediaType_ok (QStr ''images'') \<and>
   (cat_images(''license'' := QStr [])) ''license'' = QStr [] \<and>
   search healthy_env (cat_images(''license'' := QStr [])) =
     (Inr \<lparr>code = 200, body = no_results\<rparr>,
      [token_call ''id'' ''secret'',
       Get ''https://api.openverse.org/v1/images?q=cat'' [(''Authorization'', ''Bearer tok'')]])"
proof -
  let ?query = "cat_images(''license'' := QStr [])"
  have m: "?query ''mediaType'' = QStr ''images''"
    by (simp add: example_defs)
  have k: "mediaType_ok (QStr ''images'')"
    by (simp add: example_defs)
  have l: "?query ''license'' = QStr []"
    by simp
  have q: "q_string (?query ''q'') = ''cat''"
    by (simp add: example_defs)
  have f: "forward healthy_env (''https://api.openverse.org/v1/'' @ ''images'' @ ''?q=''
                   @ encodeURIComponent ''cat'') =
     (Inr \<lparr>code = 200, body = no_results\<rparr>,
      [token_call ''id'' ''secret'',
       Get ''https://api.openverse.org/v1/images?q=cat'' [(''Authorization'', ''Bearer tok'')]])"
    by (simp add: forward_def example_defs)
  have "search healthy_env ?query =
      forward healthy_env (''https://api.openverse.org/v1/'' @ ''images'' @ ''?q=''
                   @ encodeURIComponent (q_string (?query ''q'')))"
    using empty_license_is_absent [OF m k l, of healthy_env] by blast
  then have "search healthy_env ?query =
     (Inr \<lparr>code = 200, body = no_results\<rparr>,
      [token_call ''id'' ''secret'',
       Get ''https://api.openverse.org/v1/images?q=cat'' [(''Authorization'', ''Bearer tok'')]])"
    unfolding q f .
  with m k l show ?thesis
    by blast
qed

end
